theory Spec2Isabelle
  imports Complex_Main "HOL-Library.Word"
begin

unbundle bit_operations_syntax

section \<open>Buffers\<close>

text \<open>
  A Node \<open>Buffer\<close> is a list of bytes. \<open>buffer[i]\<close> is only read below under the
  length guard the source writes first; \<open>readUInt16BE\<close> throws a RangeError out of
  range, which is \<open>None\<close> here (every caller sits in a \<open>try\<close> whose \<open>catch\<close>
  returns \<open>null\<close>).
\<close>

type_synonym byte = "8 word"
type_synonym buffer = "byte list"

definition readUInt16BE :: "buffer \<Rightarrow> nat \<Rightarrow> nat option" where
  "readUInt16BE buffer offset =
     (if offset + 1 < length buffer
      then Some (unat (buffer ! offset) * 256 + unat (buffer ! (offset + 1)))
      else None)"

text \<open>
  \<open>buffer.toString('utf8', start, end)\<close>: the bytes of the range as a string. A
  \<open>string\<close> is kept as its sequence of bytes, which is what UTF-8 decoding gives on
  ASCII; the range is clipped to the buffer as Node does.
\<close>

definition toStringUtf8 :: "buffer \<Rightarrow> nat \<Rightarrow> nat \<Rightarrow> string" where
  "toStringUtf8 buffer start end =
     map (\<lambda>b. char_of (unat b)) (take (end - start) (drop start buffer))"

section \<open>SNI parser (src/utils/sni-parser.js)\<close>

text \<open>
  The body of the branch \<open>if (extensionType === 0x0000)\<close> of \<open>parseSNI\<close>;
  \<open>offset\<close> is the offset after the four bytes of the extension header.
\<close>

definition sniExtension :: "buffer \<Rightarrow> nat \<Rightarrow> string option" where
  "sniExtension buffer offset =
     (if offset + 4 \<ge> length buffer then None
      else case readUInt16BE buffer offset of
        None \<Rightarrow> None
      | Some serverNameListLength \<Rightarrow>
          (let offset2 = offset + 2 in
           if offset2 + 2 \<ge> length buffer then None
           else
             (let serverNameType = buffer ! offset2 in
              case readUInt16BE buffer (offset2 + 1) of
                None \<Rightarrow> None
              | Some serverNameLength \<Rightarrow>
                  (let offset3 = offset2 + 3 in
                   if serverNameType = 0 \<and> offset3 + serverNameLength \<le> length buffer
                   then Some (toStringUtf8 buffer offset3 (offset3 + serverNameLength))
                   else None))))"

text \<open>The \<open>while\<close> loop over the extensions.\<close>

function parseExtensions :: "buffer \<Rightarrow> nat \<Rightarrow> nat \<Rightarrow> string option" where
  "parseExtensions buffer extensionsEnd offset =
     (if offset + 3 < extensionsEnd \<and> offset + 3 < length buffer then
        (case readUInt16BE buffer offset of
           None \<Rightarrow> None
         | Some extensionType \<Rightarrow>
             (case readUInt16BE buffer (offset + 2) of
                None \<Rightarrow> None
              | Some extensionLength \<Rightarrow>
                  if extensionType = 0 then sniExtension buffer (offset + 4)
                  else parseExtensions buffer extensionsEnd (offset + 4 + extensionLength)))
      else None)"
  by pat_completeness auto
termination
  by (relation "measure (\<lambda>(buffer, extensionsEnd, offset). length buffer - offset)") auto

declare parseExtensions.simps [simp del]

text \<open>
  Where that loop finds the first extension of type \<open>0x0000\<close>: the offset after
  its header, at which the loop runs the branch above.
\<close>

function findSNIExtension :: "buffer \<Rightarrow> nat \<Rightarrow> nat \<Rightarrow> nat option" where
  "findSNIExtension buffer extensionsEnd offset =
     (if offset + 3 < extensionsEnd \<and> offset + 3 < length buffer then
        (case readUInt16BE buffer offset of
           None \<Rightarrow> None
         | Some extensionType \<Rightarrow>
             (case readUInt16BE buffer (offset + 2) of
                None \<Rightarrow> None
              | Some extensionLength \<Rightarrow>
                  if extensionType = 0 then Some (offset + 4)
                  else findSNIExtension buffer extensionsEnd (offset + 4 + extensionLength)))
      else None)"
  by pat_completeness auto
termination
  by (relation "measure (\<lambda>(buffer, extensionsEnd, offset). length buffer - offset)") auto

declare findSNIExtension.simps [simp del]

text \<open>
  The fixed part of \<open>parseSNI\<close> up to the extensions: the offset of the first
  extension and \<open>extensionsEnd\<close>, or \<open>None\<close> where the source returns \<open>null\<close>.
  \<open>buffer[5]\<close> is \<open>undefined\<close> when the buffer has five bytes, and
  \<open>undefined !== 0x01\<close>.
\<close>

definition extensionsStart :: "buffer \<Rightarrow> (nat \<times> nat) option" where
  "extensionsStart buffer =
     (if length buffer < 5 \<or> buffer ! 0 \<noteq> 0x16 then None
      else if length buffer \<le> 5 \<or> buffer ! 5 \<noteq> 0x01 then None
      else
        (let offset = 43 in
         if offset \<ge> length buffer then None
         else
           (let sessionIdLength = unat (buffer ! offset);
                offset = offset + (1 + sessionIdLength) in
            if offset + 1 \<ge> length buffer then None
            else case readUInt16BE buffer offset of
              None \<Rightarrow> None
            | Some cipherSuitesLength \<Rightarrow>
                (let offset = offset + (2 + cipherSuitesLength) in
                 if offset \<ge> length buffer then None
                 else
                   (let compressionMethodsLength = unat (buffer ! offset);
                        offset = offset + (1 + compressionMethodsLength) in
                    if offset + 1 \<ge> length buffer then None
                    else case readUInt16BE buffer offset of
                      None \<Rightarrow> None
                    | Some extensionsLength \<Rightarrow>
                        (let offset = offset + 2;
                             extensionsEnd = offset + extensionsLength in
                         Some (offset, extensionsEnd)))))))"

definition parseSNI :: "buffer \<Rightarrow> string option" where
  "parseSNI buffer =
     (case extensionsStart buffer of
        None \<Rightarrow> None
      | Some (offset, extensionsEnd) \<Rightarrow> parseExtensions buffer extensionsEnd offset)"

definition hasEnoughDataForSNI :: "buffer \<Rightarrow> bool" where
  "hasEnoughDataForSNI buffer =
     (if length buffer < 5 then False
      else if buffer ! 0 \<noteq> 0x16 then False
      else case readUInt16BE buffer 3 of
        None \<Rightarrow> False
      | Some recordLength \<Rightarrow> length buffer \<ge> recordLength + 5)"

section \<open>Builtins of the language\<close>

text \<open>
  A JavaScript number as far as the code below observes it: \<open>NaN\<close>, an infinity,
  or a finite value (a double is a rational; \<open>-0\<close> is \<open>Finite 0\<close>, which no
  operation used here tells from \<open>0\<close>).
\<close>

datatype jsnum = NaN | PosInfinity | NegInfinity | Finite rat

text \<open>\<open>x < c\<close> and \<open>x > c\<close> for a finite constant \<open>c\<close>; both are false on \<open>NaN\<close>.\<close>

fun js_lt :: "jsnum \<Rightarrow> rat \<Rightarrow> bool" where
  "js_lt NaN c = False"
| "js_lt PosInfinity c = False"
| "js_lt NegInfinity c = True"
| "js_lt (Finite q) c = (q < c)"

fun js_gt :: "jsnum \<Rightarrow> rat \<Rightarrow> bool" where
  "js_gt NaN c = False"
| "js_gt PosInfinity c = True"
| "js_gt NegInfinity c = False"
| "js_gt (Finite q) c = (q > c)"

text \<open>
  \<open>x <= c\<close> for a finite constant \<open>c\<close> (which is how \<open>c >= x\<close> reads), and
  \<open>x === y\<close>; both are false when an operand is \<open>NaN\<close>.
\<close>

fun js_le :: "jsnum \<Rightarrow> rat \<Rightarrow> bool" where
  "js_le NaN c = False"
| "js_le PosInfinity c = False"
| "js_le NegInfinity c = True"
| "js_le (Finite q) c = (q \<le> c)"

fun js_eq :: "jsnum \<Rightarrow> jsnum \<Rightarrow> bool" where
  "js_eq NaN y = False"
| "js_eq x NaN = False"
| "js_eq x y = (x = y)"

fun isNaN :: "jsnum \<Rightarrow> bool" where
  "isNaN NaN = True"
| "isNaN x = False"

text \<open>
  \<open>ToInt32\<close>, applied by \<open>\<lless>\<close> and \<open>|\<close> to their operands: \<open>NaN\<close> and the
  infinities are 0, a finite value is truncated towards zero and taken modulo \<open>2^32\<close>.
\<close>

definition js_trunc :: "rat \<Rightarrow> int" where
  "js_trunc q = (if q < 0 then - \<lfloor>- q\<rfloor> else \<lfloor>q\<rfloor>)"

fun ToInt32 :: "jsnum \<Rightarrow> 32 word" where
  "ToInt32 (Finite q) = word_of_int (js_trunc q)"
| "ToInt32 x = 0"

text \<open>
  The conversions the source calls, taken as parameters: \<open>Number(s)\<close> and
  \<open>parseInt(s, 10)\<close> on a string. Every definition and theorem below holds for any
  behaviour of the two.
\<close>

record builtins =
  Number :: "string \<Rightarrow> jsnum"
  parseInt10 :: "string \<Rightarrow> jsnum"

text \<open>\<open>s.split(sep)\<close> for a separator of one character.\<close>

fun split :: "char \<Rightarrow> string \<Rightarrow> string list" where
  "split sep [] = [[]]"
| "split sep (c # cs) =
     (if c = sep then [] # split sep cs
      else (case split sep cs of [] \<Rightarrow> [[c]] | p # ps \<Rightarrow> (c # p) # ps))"

text \<open>
  \<open>s.trim()\<close>, with the white space and line terminators of ASCII (tab, line feed,
  vertical tab, form feed, carriage return, space).
\<close>

definition isWhiteSpace :: "char \<Rightarrow> bool" where
  "isWhiteSpace c = (c \<in> set [CHR 0x09, CHR 0x0A, CHR 0x0B, CHR 0x0C, CHR 0x0D, CHR '' ''])"

definition trim :: "string \<Rightarrow> string" where
  "trim s = rev (dropWhile isWhiteSpace (rev (dropWhile isWhiteSpace s)))"

section \<open>Configuration and route table (config.js)\<close>

text \<open>
  The fields of \<open>config\<close> that the code below reads (the logging and environment
  fields are left out). The numeric fields are what \<open>parseInt\<close> returns on the
  text of the environment variable, which is \<open>NaN\<close> for a text that does not start
  with a number; \<open>allowedIPs\<close> is the comma-separated string.
\<close>

record config =
  port :: jsnum
  healthPort :: jsnum
  allowedIPs :: string
  proxyConnectTimeout :: jsnum
  proxyTimeout :: jsnum
  prereadTimeout :: jsnum
  rateLimitPerIP :: jsnum

text \<open>
  \<open>process.env.NAME || 'default'\<close>: the default stands in for a variable that is
  not set or is empty.
\<close>

definition envOr :: "(string \<rightharpoonup> string) \<Rightarrow> string \<Rightarrow> string \<Rightarrow> string" where
  "envOr env name dflt =
     (case env name of None \<Rightarrow> dflt | Some v \<Rightarrow> if v = [] then dflt else v)"

text \<open>The object \<open>config\<close>, built from the environment when the module is loaded.\<close>

definition loadConfig :: "builtins \<Rightarrow> (string \<rightharpoonup> string) \<Rightarrow> config" where
  "loadConfig js env =
     \<lparr>port = parseInt10 js (envOr env ''PORT'' ''443''),
      healthPort = parseInt10 js (envOr env ''HEALTH_PORT'' ''3000''),
      allowedIPs = envOr env ''ALLOWED_IPS'' ''0.0.0.0/0'',
      proxyConnectTimeout = parseInt10 js (envOr env ''PROXY_CONNECT_TIMEOUT'' ''10000''),
      proxyTimeout = parseInt10 js (envOr env ''PROXY_TIMEOUT'' ''300000''),
      prereadTimeout = parseInt10 js (envOr env ''PREREAD_TIMEOUT'' ''10000''),
      rateLimitPerIP = parseInt10 js (envOr env ''RATE_LIMIT_PER_IP'' ''100'')\<rparr>"

datatype configError =
  InvalidPort | InvalidHealthPort | SamePorts | ConnectTimeoutTooLow | ProxyTimeoutTooLow
  | RateLimitTooLow

text \<open>
  \<open>validateConfig\<close>: the list \<open>errors\<close>; the source throws when it is not empty.
  Every comparison is false on \<open>NaN\<close>, so a field that is \<open>NaN\<close> adds no error.
\<close>

definition validateConfig :: "config \<Rightarrow> configError list" where
  "validateConfig c =
     (if js_lt (config.port c) 1 \<or> js_gt (config.port c) 65535 then [InvalidPort] else []) @
     (if js_lt (healthPort c) 1 \<or> js_gt (healthPort c) 65535 then [InvalidHealthPort] else []) @
     (if js_eq (config.port c) (healthPort c) then [SamePorts] else []) @
     (if js_lt (proxyConnectTimeout c) 1000 then [ConnectTimeoutTooLow] else []) @
     (if js_lt (proxyTimeout c) 1000 then [ProxyTimeoutTooLow] else []) @
     (if js_lt (rateLimitPerIP c) 1 then [RateLimitTooLow] else [])"

record upstream =
  host :: string
  port :: nat

text \<open>The own properties of the object literal \<open>UNIFI_DOMAINS\<close>, in source order.\<close>

definition UNIFI_DOMAINS :: "(string \<times> upstream) list" where
  "UNIFI_DOMAINS =
     [(''fw-download.ubnt.com'', \<lparr>host = ''fw-download.ubnt.com'', port = 443\<rparr>),
      (''fw-update.ubnt.com'', \<lparr>host = ''fw-update.ubnt.com'', port = 443\<rparr>),
      (''fw-update.ui.com'', \<lparr>host = ''fw-update.ui.com'', port = 443\<rparr>),
      (''apt.artifacts.ui.com'', \<lparr>host = ''apt.artifacts.ui.com'', port = 443\<rparr>),
      (''apt-beta.artifacts.ui.com'', \<lparr>host = ''apt-beta.artifacts.ui.com'', port = 443\<rparr>),
      (''apt-release-candidate.artifacts.ui.com'',
         \<lparr>host = ''apt-release-candidate.artifacts.ui.com'', port = 443\<rparr>)]"

text \<open>
  \<open>UNIFI_DOMAINS\<close> is a plain object literal, so its prototype is
  \<open>Object.prototype\<close>, and the property read \<open>UNIFI_DOMAINS[sni]\<close> falls through to
  the members of that prototype when \<open>sni\<close> is not an own key. These are the names
  \<open>Object.prototype\<close> carries; each value is a function, or the prototype object
  itself for \<open>__proto__\<close>, so each is truthy.
\<close>

definition Object_prototype :: "string list" where
  "Object_prototype =
     [''constructor'', ''__defineGetter__'', ''__defineSetter__'', ''hasOwnProperty'',
      ''__lookupGetter__'', ''__lookupSetter__'', ''isPrototypeOf'',
      ''propertyIsEnumerable'', ''toString'', ''valueOf'', ''__proto__'',
      ''toLocaleString'']"

text \<open>
  What \<open>getUpstreamForSNI\<close> can return: \<open>null\<close>, one of the targets of the table,
  or the member of \<open>Object.prototype\<close> of the given name.
\<close>

datatype route = Null | Target upstream | Inherited string

definition getUpstreamForSNI :: "string option \<Rightarrow> route" where
  "getUpstreamForSNI sni =
     (case sni of
        None \<Rightarrow> Null
      | Some s \<Rightarrow>
          if s = [] then Null
          else (case map_of UNIFI_DOMAINS s of
                  Some target \<Rightarrow> Target target
                | None \<Rightarrow> if s \<in> set Object_prototype then Inherited s else Null))"

definition isAllowedSNI :: "string option \<Rightarrow> bool" where
  "isAllowedSNI sni =
     (case sni of
        None \<Rightarrow> False
      | Some s \<Rightarrow> s \<noteq> [] \<and> s \<in> set (map fst UNIFI_DOMAINS))"

section \<open>IP filter (src/utils/ip-filter.js)\<close>

datatype error = InvalidIPAddress string | InvalidCIDRPrefix string

text \<open>
  \<open>ipToInt\<close>. The result of \<open>\<lless>\<close> and \<open>|\<close> is a signed 32-bit value; the word holds
  its bits, and two such values are \<open>===\<close> exactly when the words are equal.
  \<open>NaN < 0\<close> and \<open>NaN > 255\<close> are both false, so a part that is not a number passes
  the range check and counts as 0.
\<close>

definition ipToInt :: "builtins \<Rightarrow> string \<Rightarrow> error + 32 word" where
  "ipToInt js ip =
     (let parts = map (Number js) (split CHR ''.'' ip) in
      if length parts \<noteq> 4 \<or> list_ex (\<lambda>p. js_lt p 0 \<or> js_gt p 255) parts
      then Inl (InvalidIPAddress ip)
      else Inr (push_bit 24 (ToInt32 (parts ! 0)) OR push_bit 16 (ToInt32 (parts ! 1))
                OR push_bit 8 (ToInt32 (parts ! 2)) OR ToInt32 (parts ! 3)))"

record cidr =
  network :: "32 word"
  mask :: "32 word"

text \<open>
  The mask of \<open>parseCIDR\<close>,
  \<open>prefix === 0 ? 0 : (0xFFFFFFFF \<lless> (32 - prefix)) >>> 0\<close>, for a prefix that
  has passed the range check. \<open>\<lless>\<close> uses its right operand modulo 32, and
  \<open>>>> 0\<close> keeps the 32 bits.
\<close>

definition prefixMask :: "rat \<Rightarrow> 32 word" where
  "prefixMask q =
     (if q = 0 then 0
      else push_bit (nat (js_trunc (32 - q)) mod 32) (0xFFFFFFFF :: 32 word))"

text \<open>
  \<open>parseCIDR\<close>. \<open>const [ip, prefixLen] = cidr.split('/')\<close> takes the first two
  parts; a missing second part is \<open>undefined\<close>, which \<open>parseInt\<close> reads as the
  string \<open>undefined\<close>. A prefix that passes the range check is finite.
\<close>

definition parseCIDR :: "builtins \<Rightarrow> string \<Rightarrow> error + cidr" where
  "parseCIDR js entry =
     (let parts = split CHR ''/'' entry;
          ip = parts ! 0;
          prefixLen = (if length parts > 1 then parts ! 1 else ''undefined'');
          prefix = parseInt10 js prefixLen in
      if isNaN prefix \<or> js_lt prefix 0 \<or> js_gt prefix 32 then Inl (InvalidCIDRPrefix entry)
      else case prefix of
        Finite q \<Rightarrow>
          (case ipToInt js ip of
             Inl e \<Rightarrow> Inl e
           | Inr net \<Rightarrow>
               (let msk = prefixMask q
                in Inr \<lparr>network = net AND msk, mask = msk\<rparr>))
      | _ \<Rightarrow> Inl (InvalidCIDRPrefix entry))"

definition matchesCIDR :: "32 word \<Rightarrow> cidr \<Rightarrow> bool" where
  "matchesCIDR ipInt c = (ipInt AND mask c = network c)"

text \<open>A rule of \<open>this.rules\<close>: \<open>{type: 'cidr', cidr, original}\<close> or \<open>{type: 'ip', ip, original}\<close>.\<close>

datatype rule = CidrRule cidr string | IpRule "32 word" string

text \<open>One turn of the loop of \<open>setAllowedIPs\<close>: an entry that throws is dropped with a warning.\<close>

definition ruleOfEntry :: "builtins \<Rightarrow> string \<Rightarrow> rule option" where
  "ruleOfEntry js entry =
     (if CHR ''/'' \<in> set entry
      then (case parseCIDR js entry of Inl e \<Rightarrow> None | Inr c \<Rightarrow> Some (CidrRule c entry))
      else (case ipToInt js entry of Inl e \<Rightarrow> None | Inr i \<Rightarrow> Some (IpRule i entry)))"

text \<open>The argument of \<open>setAllowedIPs\<close>: a comma-separated string or an array of entries.\<close>

datatype allowedIPs = CommaSeparated string | Entries "string list"

definition setAllowedIPs :: "builtins \<Rightarrow> allowedIPs \<Rightarrow> rule list" where
  "setAllowedIPs js allowed =
     (let ipList = (case allowed of
                      CommaSeparated s \<Rightarrow> filter (\<lambda>e. e \<noteq> []) (map trim (split CHR '','' s))
                    | Entries es \<Rightarrow> es)
      in List.map_filter (ruleOfEntry js) ipList)"

fun isUniversal :: "rule \<Rightarrow> bool" where
  "isUniversal (CidrRule c original) = (network c = 0 \<and> mask c = 0)"
| "isUniversal (IpRule i original) = False"

fun ruleMatches :: "32 word \<Rightarrow> rule \<Rightarrow> bool" where
  "ruleMatches ipInt (IpRule i original) = (ipInt = i)"
| "ruleMatches ipInt (CidrRule c original) = matchesCIDR ipInt c"

text \<open>
  \<open>isAllowed\<close> on the rules of the filter and a peer address, which is a string
  (\<open>clientSocket.remoteAddress\<close>). The two early returns come before the address is
  parsed; an address on which \<open>ipToInt\<close> throws is caught and denied.
\<close>

definition isAllowed :: "builtins \<Rightarrow> rule list \<Rightarrow> string \<Rightarrow> bool" where
  "isAllowed js rules ip =
     (if rules = [] then True
      else if list_ex isUniversal rules then True
      else (case ipToInt js ip of
              Inl e \<Rightarrow> False
            | Inr ipInt \<Rightarrow> list_ex (ruleMatches ipInt) rules))"

definition getRules :: "rule list \<Rightarrow> string list" where
  "getRules rules = map (\<lambda>r. case r of CidrRule c original \<Rightarrow> original | IpRule i original \<Rightarrow> original) rules"

section \<open>Statistics (health-check.js)\<close>

text \<open>
  \<open>this.domains\<close> and \<open>this.ipConnections\<close> are plain objects used as counters. A
  value is a count, or not a number: \<open>(obj[key] || 0) + 1\<close> on a key that names a
  member of \<open>Object.prototype\<close> reads that member and appends to its text.
\<close>

datatype tally = Count int | NonNumeric

definition increment :: "(string \<rightharpoonup> tally) \<Rightarrow> string \<Rightarrow> (string \<rightharpoonup> tally)" where
  "increment obj key =
     obj(key \<mapsto>
       (case obj key of
          Some (Count n) \<Rightarrow> Count (n + 1)
        | Some NonNumeric \<Rightarrow> NonNumeric
        | None \<Rightarrow> if key \<in> set Object_prototype then NonNumeric else Count 1))"

record stats =
  total :: int
  active :: int
  successful :: int
  failed :: int
  domains :: "string \<rightharpoonup> tally"
  ipConnections :: "string \<rightharpoonup> tally"

definition newStatsTracker :: stats where
  "newStatsTracker =
     \<lparr>total = 0, active = 0, successful = 0, failed = 0,
      domains = Map.empty, ipConnections = Map.empty\<rparr>"

definition recordConnection :: "string \<Rightarrow> string \<Rightarrow> stats \<Rightarrow> stats" where
  "recordConnection ip sni s =
     (let s1 = s\<lparr>total := total s + 1, active := active s + 1\<rparr>;
          s2 = (if sni \<noteq> [] then s1\<lparr>domains := increment (domains s1) sni\<rparr> else s1)
      in if ip \<noteq> [] then s2\<lparr>ipConnections := increment (ipConnections s2) ip\<rparr> else s2)"

definition recordSuccess :: "stats \<Rightarrow> stats" where
  "recordSuccess s = s\<lparr>successful := successful s + 1, active := max 0 (active s - 1)\<rparr>"

definition recordFailure :: "stats \<Rightarrow> stats" where
  "recordFailure s = s\<lparr>failed := failed s + 1, active := max 0 (active s - 1)\<rparr>"

section \<open>Rate limiter (server.js)\<close>

record rateLimitEntry =
  count :: int
  resetTime :: int

type_synonym rateLimitMap = "string \<rightharpoonup> rateLimitEntry"

text \<open>
  \<open>checkRateLimit\<close>; \<open>limit\<close> is \<open>config.rateLimitPerIP\<close> and \<open>now\<close> is the
  value of \<open>Date.now()\<close>. \<open>existing.count >= config.rateLimitPerIP\<close> is false when
  the limit is \<open>NaN\<close>.
\<close>

definition checkRateLimit :: "jsnum \<Rightarrow> int \<Rightarrow> string \<Rightarrow> rateLimitMap \<Rightarrow> bool \<times> rateLimitMap" where
  "checkRateLimit limit now ip m =
     (let newResetTime = now + 60000 in
      case m ip of
        None \<Rightarrow> (True, m(ip \<mapsto> \<lparr>count = 1, resetTime = newResetTime\<rparr>))
      | Some existing \<Rightarrow>
          if now > resetTime existing
          then (True, m(ip \<mapsto> \<lparr>count = 1, resetTime = newResetTime\<rparr>))
          else if js_le limit (of_int (count existing)) then (False, m)
          else (True, m(ip \<mapsto> existing\<lparr>count := count existing + 1\<rparr>)))"

text \<open>The callback of \<open>setInterval\<close> that sweeps the map.\<close>

definition cleanupRateLimit :: "int \<Rightarrow> rateLimitMap \<Rightarrow> rateLimitMap" where
  "cleanupRateLimit now m =
     (\<lambda>ip. case m ip of
              None \<Rightarrow> None
            | Some d \<Rightarrow> if now > resetTime d then None else Some d)"

text \<open>
  A run of the limiter: the calls of \<open>checkRateLimit\<close> and the sweeps, in order,
  and the number of calls for one address that such a run admits.
\<close>

datatype limiterEvent = Check int string | Sweep int

fun eventTime :: "limiterEvent \<Rightarrow> int" where
  "eventTime (Check now ip) = now"
| "eventTime (Sweep now) = now"

fun admissions :: "jsnum \<Rightarrow> string \<Rightarrow> limiterEvent list \<Rightarrow> rateLimitMap \<Rightarrow> nat" where
  "admissions limit a [] m = 0"
| "admissions limit a (Check now ip # es) m =
     (case checkRateLimit limit now ip m of
        (admitted, m') \<Rightarrow> (if admitted \<and> ip = a then 1 else 0) + admissions limit a es m')"
| "admissions limit a (Sweep now # es) m = admissions limit a es (cleanupRateLimit now m)"

section \<open>Connection handler (server.js)\<close>

text \<open>
  The module state that the handlers share: the statistics, the rate-limit map, and
  the messages passed to the logger, oldest first.
\<close>

record server =
  stats :: stats
  rateLimitMap :: rateLimitMap
  logs :: "string list"

definition newServer :: server where
  "newServer = \<lparr>stats = newStatsTracker, rateLimitMap = Map.empty, logs = []\<rparr>"

definition logMessage :: "string \<Rightarrow> server \<Rightarrow> server" where
  "logMessage msg srv = srv\<lparr>logs := logs srv @ [msg]\<rparr>"

definition failure :: "server \<Rightarrow> server" where
  "failure srv = srv\<lparr>stats := recordFailure (stats srv)\<rparr>"

text \<open>\<open>const ipFilter = new IPFilter(config.allowedIPs)\<close>.\<close>

definition ipFilter :: "builtins \<Rightarrow> config \<Rightarrow> rule list" where
  "ipFilter js cfg = setAllowedIPs js (CommaSeparated (allowedIPs cfg))"

text \<open>
  The variables that the closures of one call of \<open>handleConnection\<close> share, and the
  state of its two sockets: \<open>upstreamSocket\<close> is \<open>None\<close> for \<open>null\<close> and otherwise
  the value \<open>tls.connect\<close> was called for; \<open>dataBuffer\<close> is \<open>None\<close> once set to
  \<open>null\<close>; \<open>prereadTimer\<close> holds while the timeout is pending; \<open>clientListeners\<close>
  and \<open>dataListener\<close> hold while the listeners of \<open>clientSocket\<close> are attached;
  \<open>upstreamWritten\<close> are the bytes written to the upstream socket.
\<close>

record conn =
  clientIP :: string
  upstreamSocket :: "route option"
  sniHostname :: "string option"
  dataBuffer :: "buffer option"
  isUpstreamConnected :: bool
  prereadTimer :: bool
  clientDestroyed :: bool
  upstreamDestroyed :: bool
  clientListeners :: bool
  dataListener :: bool
  upstreamWritten :: buffer
  piped :: bool

definition newConn :: "string \<Rightarrow> conn" where
  "newConn ip =
     \<lparr>clientIP = ip, upstreamSocket = None, sniHostname = None, dataBuffer = Some [],
      isUpstreamConnected = False, prereadTimer = False, clientDestroyed = False,
      upstreamDestroyed = False, clientListeners = False, dataListener = False,
      upstreamWritten = [], piped = False\<rparr>"

text \<open>
  \<open>handleConnection\<close> up to its return: the two admission checks, then the timer
  and the listeners. A rejected socket is destroyed before any listener is attached.
\<close>

definition handleConnection :: "builtins \<Rightarrow> config \<Rightarrow> int \<Rightarrow> string \<Rightarrow> server \<Rightarrow> server \<times> conn" where
  "handleConnection js cfg now ip srv =
     (let c = newConn ip;
          srv1 = logMessage ''New connection established'' srv in
      if \<not> isAllowed js (ipFilter js cfg) ip
      then (failure (logMessage ''Connection rejected: IP not in whitelist'' srv1),
            c\<lparr>clientDestroyed := True\<rparr>)
      else
        (case checkRateLimit (rateLimitPerIP cfg) now ip (rateLimitMap srv1) of
           (admitted, m) \<Rightarrow>
             (let srv2 = srv1\<lparr>rateLimitMap := m\<rparr> in
              if \<not> admitted
              then (failure (logMessage ''Connection rejected: Rate limit exceeded'' srv2),
                    c\<lparr>clientDestroyed := True\<rparr>)
              else (srv2, c\<lparr>prereadTimer := True, clientListeners := True,
                              dataListener := True\<rparr>))))"

definition connectToUpstream :: "route \<Rightarrow> server \<times> conn \<Rightarrow> server \<times> conn" where
  "connectToUpstream upstream sc =
     (case sc of (srv, c) \<Rightarrow>
        (logMessage ''Connecting to upstream server'' srv, c\<lparr>upstreamSocket := Some upstream\<rparr>))"

text \<open>
  \<open>onClientData\<close>. \<open>!sniHostname\<close> holds for \<open>null\<close> and for the empty string.
  With \<open>dataBuffer\<close> \<open>null\<close> the call of \<open>Buffer.concat\<close> throws; the listener is
  removed before \<open>dataBuffer\<close> is set to \<open>null\<close>, and the state is left as it is.
\<close>

definition onClientData :: "buffer \<Rightarrow> server \<times> conn \<Rightarrow> server \<times> conn" where
  "onClientData data sc =
     (case sc of (srv, c) \<Rightarrow>
        (case dataBuffer c of
           None \<Rightarrow> (srv, c)
         | Some old \<Rightarrow>
             (let buf = old @ data;
                  c1 = c\<lparr>dataBuffer := Some buf\<rparr> in
              if \<not> hasEnoughDataForSNI buf then (srv, c1)
              else
                (let sni = parseSNI buf;
                     c2 = c1\<lparr>sniHostname := sni\<rparr> in
                 if sni = None \<or> sni = Some []
                 then (failure (logMessage ''Failed to parse SNI from ClientHello'' srv),
                       c2\<lparr>prereadTimer := False, clientDestroyed := True\<rparr>)
                 else
                   (let srv1 = logMessage ''SNI extracted from ClientHello'' srv;
                        upstream = getUpstreamForSNI sni in
                    if upstream = Null
                    then (failure (logMessage ''SNI not in allowed domains list'' srv1),
                          c2\<lparr>prereadTimer := False, clientDestroyed := True\<rparr>)
                    else
                      connectToUpstream upstream
                        (srv1\<lparr>stats := recordConnection (clientIP c) (the sni) (stats srv1)\<rparr>,
                         c2\<lparr>dataListener := False\<rparr>))))))"

text \<open>The callback of \<open>prereadTimer\<close>.\<close>

definition onPrereadTimeout :: "server \<times> conn \<Rightarrow> server \<times> conn" where
  "onPrereadTimeout sc =
     (case sc of (srv, c) \<Rightarrow>
        (let c1 = c\<lparr>prereadTimer := False\<rparr> in
         if \<not> isUpstreamConnected c
         then (failure (logMessage ''Timeout waiting for TLS ClientHello'' srv),
               c1\<lparr>clientDestroyed := True\<rparr>)
         else (srv, c1)))"

definition cleanup :: "conn \<Rightarrow> conn" where
  "cleanup c =
     (let c1 = c\<lparr>prereadTimer := False\<rparr>;
          c2 = (if \<not> clientDestroyed c1 then c1\<lparr>piped := False, clientDestroyed := True\<rparr> else c1)
      in if upstreamSocket c2 \<noteq> None \<and> \<not> upstreamDestroyed c2
         then c2\<lparr>piped := False, upstreamDestroyed := True\<rparr> else c2)"

text \<open>The listener of \<open>secureConnect\<close> on the upstream socket.\<close>

definition onSecureConnect :: "server \<times> conn \<Rightarrow> server \<times> conn" where
  "onSecureConnect sc =
     (case sc of (srv, c) \<Rightarrow>
        (let srv1 = logMessage ''Connected to upstream server'' srv;
             written = (case dataBuffer c of None \<Rightarrow> [] | Some buf \<Rightarrow> buf) in
         (srv1\<lparr>stats := recordSuccess (stats srv1)\<rparr>,
          c\<lparr>prereadTimer := False, isUpstreamConnected := True,
            upstreamWritten := upstreamWritten c @ written, dataBuffer := None,
            piped := True\<rparr>)))"

text \<open>
  The events of one connection and the listener each one runs. The runtime delivers
  \<open>data\<close> while the listener is attached and the socket is not destroyed, the timer
  callback while the timer is pending, the events of the upstream socket once it
  exists, and the other events of the client socket once their listeners are attached.
\<close>

datatype event =
  Data buffer | PrereadTimeout
  | SecureConnect | UpstreamTimeout | UpstreamError | UpstreamEnd | UpstreamClose
  | ClientError | ClientTimeout | ClientEnd | ClientClose

fun fire :: "event \<Rightarrow> server \<times> conn \<Rightarrow> server \<times> conn" where
  "fire (Data d) (srv, c) =
     (if dataListener c \<and> \<not> clientDestroyed c then onClientData d (srv, c) else (srv, c))"
| "fire PrereadTimeout (srv, c) =
     (if prereadTimer c then onPrereadTimeout (srv, c) else (srv, c))"
| "fire SecureConnect (srv, c) =
     (if upstreamSocket c \<noteq> None \<and> \<not> upstreamDestroyed c \<and> \<not> isUpstreamConnected c
      then onSecureConnect (srv, c) else (srv, c))"
| "fire UpstreamTimeout (srv, c) =
     (if upstreamSocket c \<noteq> None \<and> \<not> upstreamDestroyed c
      then (failure (logMessage ''Upstream connection timeout'' srv), cleanup c) else (srv, c))"
| "fire UpstreamError (srv, c) =
     (if upstreamSocket c \<noteq> None
      then (failure (logMessage ''Upstream connection error'' srv), cleanup c) else (srv, c))"
| "fire UpstreamEnd (srv, c) =
     (if upstreamSocket c \<noteq> None
      then (logMessage ''Upstream connection ended'' srv, cleanup c) else (srv, c))"
| "fire UpstreamClose (srv, c) =
     (if upstreamSocket c \<noteq> None
      then (logMessage ''Upstream socket closed'' srv, cleanup c) else (srv, c))"
| "fire ClientError (srv, c) =
     (if clientListeners c then (logMessage ''Client socket error'' srv, cleanup c) else (srv, c))"
| "fire ClientTimeout (srv, c) =
     (if clientListeners c then (logMessage ''Client socket timeout'' srv, cleanup c) else (srv, c))"
| "fire ClientEnd (srv, c) =
     (if clientListeners c then (logMessage ''Client connection ended'' srv, cleanup c) else (srv, c))"
| "fire ClientClose (srv, c) =
     (if clientListeners c then (logMessage ''Client socket closed'' srv, cleanup c) else (srv, c))"

fun fireAll :: "event list \<Rightarrow> server \<times> conn \<Rightarrow> server \<times> conn" where
  "fireAll [] sc = sc"
| "fireAll (e # es) sc = fireAll es (fire e sc)"

text \<open>
  The server over time: a connection is accepted (\<open>handleConnection\<close> runs at the
  given time for the given peer address), or an event of an earlier connection, named
  by its position, is delivered. All connections share the module state.
\<close>

datatype action = Accept int string | Deliver nat event

fun serve :: "builtins \<Rightarrow> config \<Rightarrow> action list \<Rightarrow> server \<times> conn list \<Rightarrow> server \<times> conn list" where
  "serve js cfg [] (srv, cs) = (srv, cs)"
| "serve js cfg (Accept now ip # acts) (srv, cs) =
     (case handleConnection js cfg now ip srv of
        (srv', c) \<Rightarrow> serve js cfg acts (srv', cs @ [c]))"
| "serve js cfg (Deliver i ev # acts) (srv, cs) =
     (if i < length cs
      then (case fire ev (srv, cs ! i) of
              (srv', c') \<Rightarrow> serve js cfg acts (srv', cs[i := c']))
      else serve js cfg acts (srv, cs))"

section \<open>Fixtures for the examples\<close>

text \<open>
  An instance of the two conversions for the examples: exact on the empty string and
  on strings of decimal digits, and \<open>NaN\<close> elsewhere, which is what the builtins give
  on the other strings of the examples (none of them has a sign, white space, an
  exponent or a radix prefix).
\<close>

definition isDigit :: "char \<Rightarrow> bool" where
  "isDigit c = (48 \<le> (of_char c :: nat) \<and> (of_char c :: nat) \<le> 57)"

definition digitsValue :: "string \<Rightarrow> nat" where
  "digitsValue s = foldl (\<lambda>v c. 10 * v + (of_char c - 48)) 0 s"

definition decimalNumber :: "string \<Rightarrow> jsnum" where
  "decimalNumber s =
     (if s = [] then Finite 0
      else if list_all isDigit s then Finite (of_nat (digitsValue s)) else NaN)"

definition decimalParseInt :: "string \<Rightarrow> jsnum" where
  "decimalParseInt s =
     (let ds = takeWhile isDigit s in
      if ds = [] then NaN else Finite (of_nat (digitsValue ds)))"

definition decimalBuiltins :: builtins where
  "decimalBuiltins = \<lparr>Number = decimalNumber, parseInt10 = decimalParseInt\<rparr>"

text \<open>The defaults of \<open>config\<close>, which is what an empty environment gives.\<close>

definition defaultConfig :: config where
  "defaultConfig =
     \<lparr>config.port = Finite 443, healthPort = Finite 3000, allowedIPs = ''0.0.0.0/0'',
      proxyConnectTimeout = Finite 10000, proxyTimeout = Finite 300000,
      prereadTimeout = Finite 10000, rateLimitPerIP = Finite 100\<rparr>"

text \<open>
  A minimal TLS record with a ClientHello whose only extension is a server name list
  with one \<open>host_name\<close> entry of the given bytes (61 bytes before the name).
\<close>

definition clientHello :: "byte list \<Rightarrow> buffer" where
  "clientHello name =
     (let n = length name in
      [0x16, 0x03, 0x01, of_nat ((n + 56) div 256), of_nat ((n + 56) mod 256),
       0x01, 0x00, of_nat ((n + 52) div 256), of_nat ((n + 52) mod 256),
       0x03, 0x03] @ replicate 32 0 @
      [0x00,
       0x00, 0x02, 0x13, 0x01,
       0x01, 0x00,
       of_nat ((n + 9) div 256), of_nat ((n + 9) mod 256),
       0x00, 0x00, of_nat ((n + 5) div 256), of_nat ((n + 5) mod 256),
       of_nat ((n + 3) div 256), of_nat ((n + 3) mod 256),
       0x00, of_nat (n div 256), of_nat (n mod 256)] @ name)"

text \<open>The bytes of \<open>example.com\<close> and of \<open>GET / HTTP/1.1\<close> followed by CR LF.\<close>

definition example_com :: "byte list" where
  "example_com = [0x65, 0x78, 0x61, 0x6d, 0x70, 0x6c, 0x65, 0x2e, 0x63, 0x6f, 0x6d]"

definition http_get :: "byte list" where
  "http_get = [0x47, 0x45, 0x54, 0x20, 0x2f, 0x20, 0x48, 0x54, 0x54, 0x50, 0x2f, 0x31,
               0x2e, 0x31, 0x0d, 0x0a]"

text \<open>
  The start of a record that announces 65535 bytes, 16389 bytes in all: more than
  16 KiB, and not yet the whole record.
\<close>

definition oversized :: buffer where
  "oversized = [0x16, 0x03, 0x01, 0xFF, 0xFF] @ replicate 16384 0"

text \<open>
  The bytes of \<open>fw-download.ubnt.com\<close>, and the defaults with the allow-list
  \<open>10.0.0.0/8\<close>.
\<close>

definition fw_download_ubnt_com :: "byte list" where
  "fw_download_ubnt_com =
     [0x66, 0x77, 0x2d, 0x64, 0x6f, 0x77, 0x6e, 0x6c, 0x6f, 0x61, 0x64, 0x2e,
      0x75, 0x62, 0x6e, 0x74, 0x2e, 0x63, 0x6f, 0x6d]"

definition tenOnly :: config where
  "tenOnly = defaultConfig\<lparr>allowedIPs := ''10.0.0.0/8''\<rparr>"

text \<open>The five bytes of a record header that announces 65535 bytes.\<close>

definition recordHeader :: buffer where
  "recordHeader = [0x16, 0x03, 0x01, 0xFF, 0xFF]"

section \<open>Properties of the parser\<close>

lemma parseExtensions_find:
  "parseExtensions buffer extensionsEnd offset =
     (case findSNIExtension buffer extensionsEnd offset of
        None \<Rightarrow> None
      | Some k \<Rightarrow> sniExtension buffer k)"
proof (induction buffer extensionsEnd offset rule: parseExtensions.induct)
  case (1 buffer extensionsEnd offset)
  show ?case
    by (subst parseExtensions.simps, subst findSNIExtension.simps)
       (auto split: option.splits simp: "1.IH")
qed

lemma sniExtension_empty_name:
  assumes "offset + 4 < length buffer"
    and "buffer ! (offset + 2) = 0"
    and "readUInt16BE buffer (offset + 3) = Some 0"
  shows "sniExtension buffer offset = Some []"
proof -
  have "readUInt16BE buffer offset \<noteq> None"
    using assms(1) by (simp add: readUInt16BE_def)
  then obtain l where l: "readUInt16BE buffer offset = Some l" by blast
  have eq: "offset + 2 + 1 = offset + 3" by arith
  have e: "readUInt16BE buffer (offset + 2 + 1) = Some 0"
    unfolding eq by (rule assms(3))
  show ?thesis
    unfolding sniExtension_def Let_def
    using assms(1,2) l e by (simp add: toStringUtf8_def)
qed

text \<open>
  C7 (as amended). The claim says that a \<open>host_name\<close> entry of length 0 in the
  first SNI extension makes \<open>parseSNI\<close> return \<open>null\<close>. The source has no check
  of the length: when the loop reaches the first extension of type \<open>0x0000\<close> at
  \<open>offset\<close>, the five bytes after the header are in the buffer, the name type is 0
  and the name length is 0, \<open>parseSNI\<close> returns the empty string.
\<close>

theorem parseSNI_empty_name:
  assumes "extensionsStart buffer = Some (start, extensionsEnd)"
    and "findSNIExtension buffer extensionsEnd start = Some offset"
    and "offset + 4 < length buffer"
    and "buffer ! (offset + 2) = 0"
    and "readUInt16BE buffer (offset + 3) = Some 0"
  shows "parseSNI buffer = Some []"
  using assms(1,2) sniExtension_empty_name [OF assms(3-5)]
  by (simp add: parseSNI_def parseExtensions_find)

theorem parseSNI_empty_name_witness:
  "extensionsStart (clientHello []) = Some (52, 61)
   \<and> findSNIExtension (clientHello []) 61 52 = Some 56
   \<and> 56 + 4 < length (clientHello [])
   \<and> clientHello [] ! (56 + 2) = 0
   \<and> readUInt16BE (clientHello []) (56 + 3) = Some 0
   \<and> parseSNI (clientHello []) = Some []"
proof -
  have a: "extensionsStart (clientHello []) = Some (52, 61)" by code_simp
  have b: "findSNIExtension (clientHello []) 61 52 = Some 56" by code_simp
  have c: "56 + 4 < length (clientHello [])" by code_simp
  have d: "clientHello [] ! (56 + 2) = 0" by code_simp
  have e: "readUInt16BE (clientHello []) (56 + 3) = Some 0" by code_simp
  show ?thesis using a b c d e parseSNI_empty_name [OF a b c d e] by simp
qed

text \<open>
  C7, the claim as stated fails: in the ClientHello whose only extension is a server
  name list with one \<open>host_name\<close> entry of length 0 (name type at byte 58, name
  length at bytes 59 and 60), \<open>parseSNI\<close> does not return \<open>null\<close>.
\<close>

theorem parseSNI_empty_name_counterexample:
  "clientHello [] ! 58 = 0
   \<and> readUInt16BE (clientHello []) 59 = Some 0
   \<and> parseSNI (clientHello []) \<noteq> None"
  by code_simp

section \<open>Properties of the route table\<close>

text \<open>
  C4. The claim says that \<open>getUpstreamForSNI\<close> returns \<open>null\<close> for every string
  that is not one of the six hostnames. For the string \<open>constructor\<close> the property
  read reaches \<open>Object.prototype.constructor\<close>, which is truthy, and that value is
  returned; \<open>isAllowedSNI\<close>, which asks \<open>hasOwnProperty\<close>, denies the same string.
\<close>

theorem getUpstreamForSNI_constructor:
  "getUpstreamForSNI (Some ''constructor'') = Inherited ''constructor''
   \<and> isAllowedSNI (Some ''constructor'') = False"
  by code_simp

section \<open>Properties of the connection handler\<close>

lemma stats_failure [simp]: "stats (failure srv) = recordFailure (stats srv)"
  by (simp add: failure_def)

lemma stats_logMessage [simp]: "stats (logMessage msg srv) = stats srv"
  by (simp add: logMessage_def)

lemma rateLimitMap_logMessage [simp]: "rateLimitMap (logMessage msg srv) = rateLimitMap srv"
  by (simp add: logMessage_def)

lemma recordFailure_fields [simp]:
  "total (recordFailure s) = total s"
  "successful (recordFailure s) = successful s"
  "failed (recordFailure s) = failed s + 1"
  "active (recordFailure s) = max 0 (active s - 1)"
  "domains (recordFailure s) = domains s"
  "ipConnections (recordFailure s) = ipConnections s"
  by (simp_all add: recordFailure_def)

lemma handleConnection_admitted:
  assumes "isAllowed js (ipFilter js cfg) ip"
    and "checkRateLimit (rateLimitPerIP cfg) now ip (rateLimitMap srv) = (True, m)"
  shows "handleConnection js cfg now ip srv =
           ((logMessage ''New connection established'' srv)\<lparr>rateLimitMap := m\<rparr>,
            (newConn ip)\<lparr>prereadTimer := True, clientListeners := True, dataListener := True\<rparr>)"
  using assms by (simp add: handleConnection_def Let_def)

lemma onClientData_wait:
  assumes "dataBuffer c = Some old" and "\<not> hasEnoughDataForSNI (old @ data)"
  shows "onClientData data (srv, c) = (srv, c\<lparr>dataBuffer := Some (old @ data)\<rparr>)"
  using assms by (simp add: onClientData_def Let_def)

lemma onClientData_noSNI:
  assumes "dataBuffer c = Some old" and "hasEnoughDataForSNI (old @ data)"
    and "parseSNI (old @ data) = None \<or> parseSNI (old @ data) = Some []"
  shows "onClientData data (srv, c) =
           (failure (logMessage ''Failed to parse SNI from ClientHello'' srv),
            c\<lparr>dataBuffer := Some (old @ data), sniHostname := parseSNI (old @ data),
              prereadTimer := False, clientDestroyed := True\<rparr>)"
  using assms by (auto simp add: onClientData_def Let_def)

lemma onClientData_denied:
  assumes "dataBuffer c = Some old" and "hasEnoughDataForSNI (old @ data)"
    and "parseSNI (old @ data) = Some s" and "s \<noteq> []"
    and "getUpstreamForSNI (Some s) = Null"
  shows "onClientData data (srv, c) =
           (failure (logMessage ''SNI not in allowed domains list''
                       (logMessage ''SNI extracted from ClientHello'' srv)),
            c\<lparr>dataBuffer := Some (old @ data), sniHostname := Some s,
              prereadTimer := False, clientDestroyed := True\<rparr>)"
  using assms by (simp add: onClientData_def Let_def)

lemma example_com_denied: "getUpstreamForSNI (Some ''example.com'') = Null"
  by code_simp

text \<open>
  C2 (as amended). A connection that passes the allow-list and the rate limiter and
  whose first data is a complete record with the SNI \<open>example.com\<close> is closed with
  no upstream socket created. \<open>recordConnection\<close> is called only after the route
  check has passed, so the statistics change by \<open>recordFailure\<close> alone: \<open>total\<close>
  and \<open>domains\<close> are as before (0 and no entry on a fresh tracker) and \<open>failed\<close>
  is one more.
\<close>

theorem unknown_sni_accounting:
  assumes "isAllowed js (ipFilter js cfg) ip"
    and "fst (checkRateLimit (rateLimitPerIP cfg) now ip (rateLimitMap srv))"
    and "hasEnoughDataForSNI hello"
    and "parseSNI hello = Some ''example.com''"
  shows "clientDestroyed (snd (onClientData hello (handleConnection js cfg now ip srv)))
       \<and> upstreamSocket (snd (onClientData hello (handleConnection js cfg now ip srv))) = None
       \<and> stats (fst (onClientData hello (handleConnection js cfg now ip srv)))
           = recordFailure (stats srv)
       \<and> total (recordFailure (stats srv)) = total (stats srv)
       \<and> failed (recordFailure (stats srv)) = failed (stats srv) + 1
       \<and> domains (recordFailure (stats srv)) = domains (stats srv)"
proof -
  obtain m where m: "checkRateLimit (rateLimitPerIP cfg) now ip (rateLimitMap srv) = (True, m)"
    using assms(2) by (cases "checkRateLimit (rateLimitPerIP cfg) now ip (rateLimitMap srv)") auto
  let ?c = "(newConn ip)\<lparr>prereadTimer := True, clientListeners := True, dataListener := True\<rparr>"
  let ?srv = "(logMessage ''New connection established'' srv)\<lparr>rateLimitMap := m\<rparr>"
  have h: "handleConnection js cfg now ip srv = (?srv, ?c)"
    by (rule handleConnection_admitted [OF assms(1) m])
  have b: "dataBuffer ?c = Some []" by (simp add: newConn_def)
  have d: "onClientData hello (?srv, ?c) =
           (failure (logMessage ''SNI not in allowed domains list''
                       (logMessage ''SNI extracted from ClientHello'' ?srv)),
            ?c\<lparr>dataBuffer := Some ([] @ hello), sniHostname := Some ''example.com'',
              prereadTimer := False, clientDestroyed := True\<rparr>)"
    by (rule onClientData_denied [OF b]) (simp_all add: assms example_com_denied)
  show ?thesis
    unfolding h d by (simp add: newConn_def)
qed

theorem unknown_sni_accounting_witness:
  "isAllowed decimalBuiltins (ipFilter decimalBuiltins defaultConfig) ''203.0.113.5''
   \<and> fst (checkRateLimit (rateLimitPerIP defaultConfig) 0 ''203.0.113.5'' (rateLimitMap newServer))
   \<and> hasEnoughDataForSNI (clientHello example_com)
   \<and> parseSNI (clientHello example_com) = Some ''example.com''
   \<and> upstreamSocket (snd (onClientData (clientHello example_com)
        (handleConnection decimalBuiltins defaultConfig 0 ''203.0.113.5'' newServer))) = None
   \<and> total (stats (fst (onClientData (clientHello example_com)
        (handleConnection decimalBuiltins defaultConfig 0 ''203.0.113.5'' newServer)))) = 0
   \<and> failed (stats (fst (onClientData (clientHello example_com)
        (handleConnection decimalBuiltins defaultConfig 0 ''203.0.113.5'' newServer)))) = 1
   \<and> domains (stats (fst (onClientData (clientHello example_com)
        (handleConnection decimalBuiltins defaultConfig 0 ''203.0.113.5'' newServer))))
        ''example.com'' = None"
proof -
  have a: "isAllowed decimalBuiltins (ipFilter decimalBuiltins defaultConfig) ''203.0.113.5''"
    by code_simp
  have b: "fst (checkRateLimit (rateLimitPerIP defaultConfig) 0 ''203.0.113.5''
                  (rateLimitMap newServer))"
    by code_simp
  have c: "hasEnoughDataForSNI (clientHello example_com)" by code_simp
  have d: "parseSNI (clientHello example_com) = Some ''example.com''" by code_simp
  show ?thesis
    using a b c d unknown_sni_accounting [OF a b c d]
    by (simp add: newServer_def newStatsTracker_def)
qed

text \<open>
  C2, the claim as stated fails: for the peer 203.0.113.5 under the default
  configuration and the ClientHello with SNI \<open>example.com\<close>, the statistics
  afterwards do not show \<open>total = 1\<close>, and \<open>domains\<close> has no count 1 for
  \<open>example.com\<close>.
\<close>

theorem unknown_sni_accounting_counterexample:
  "parseSNI (clientHello example_com) = Some ''example.com''
   \<and> total (stats (fst (onClientData (clientHello example_com)
        (handleConnection decimalBuiltins defaultConfig 0 ''203.0.113.5'' newServer)))) \<noteq> 1
   \<and> domains (stats (fst (onClientData (clientHello example_com)
        (handleConnection decimalBuiltins defaultConfig 0 ''203.0.113.5'' newServer))))
        ''example.com'' \<noteq> Some (Count 1)"
  by code_simp

lemma hasEnough_oversized: "\<not> hasEnoughDataForSNI oversized"
  by (simp add: hasEnoughDataForSNI_def oversized_def readUInt16BE_def)

lemma length_oversized: "length oversized = 16389"
  by (simp add: oversized_def)

lemma fresh_admitted:
  "handleConnection decimalBuiltins defaultConfig 0 ''203.0.113.5'' newServer =
     ((logMessage ''New connection established'' newServer)
        \<lparr>rateLimitMap := [''203.0.113.5'' \<mapsto> \<lparr>count = 1, resetTime = 60000\<rparr>]\<rparr>,
      (newConn ''203.0.113.5'')\<lparr>prereadTimer := True, clientListeners := True, dataListener := True\<rparr>)"
proof -
  have a: "isAllowed decimalBuiltins (ipFilter decimalBuiltins defaultConfig) ''203.0.113.5''"
    by code_simp
  have b: "checkRateLimit (rateLimitPerIP defaultConfig) 0 ''203.0.113.5'' (rateLimitMap newServer)
           = (True, [''203.0.113.5'' \<mapsto> \<lparr>count = 1, resetTime = 60000\<rparr>])"
    by (simp add: checkRateLimit_def newServer_def)
  show ?thesis by (rule handleConnection_admitted [OF a b])
qed

lemma hasEnough_not_tls:
  assumes "buf \<noteq> []" and "buf ! 0 \<noteq> 0x16"
  shows "\<not> hasEnoughDataForSNI buf"
  using assms by (simp add: hasEnoughDataForSNI_def)

lemma onPrereadTimeout_waiting:
  assumes "\<not> isUpstreamConnected c"
  shows "onPrereadTimeout (srv, c) =
           (failure (logMessage ''Timeout waiting for TLS ClientHello'' srv),
            c\<lparr>prereadTimer := False, clientDestroyed := True\<rparr>)"
  using assms by (simp add: onPrereadTimeout_def Let_def)

lemma readUInt16BE_bound:
  assumes "readUInt16BE buf i = Some v"
  shows "v \<le> 65535"
proof -
  have a: "unat (buf ! i) \<le> 255"
    using unsigned_less [of "buf ! i", where 'a = nat] by simp
  have b: "unat (buf ! (i + 1)) \<le> 255"
    using unsigned_less [of "buf ! (i + 1)", where 'a = nat] by simp
  from assms have "v = unat (buf ! i) * 256 + unat (buf ! (i + 1))"
    by (simp add: readUInt16BE_def split: if_splits)
  with a b show ?thesis by arith
qed

lemma hasEnough_at_65540:
  assumes "buf ! 0 = 0x16" and "65540 \<le> length buf"
  shows "hasEnoughDataForSNI buf"
proof -
  have "3 + 1 < length buf" using assms(2) by simp
  then obtain v where v: "readUInt16BE buf 3 = Some v"
    by (simp add: readUInt16BE_def)
  from readUInt16BE_bound [OF v] have "v + 5 \<le> length buf" using assms(2) by simp
  with v assms show ?thesis by (simp add: hasEnoughDataForSNI_def)
qed

text \<open>
  C5 (as amended). The claim says that a first byte other than \<open>0x16\<close> closes the
  connection at once with the reason NotTls. The source has no such check in the
  handler: \<open>hasEnoughDataForSNI\<close> is false on such a buffer, so \<open>onClientData\<close>
  keeps the bytes and returns with the socket open and the statistics unchanged; the
  connection is closed, with \<open>failed++\<close> and the message of the preread timeout,
  when \<open>prereadTimer\<close> fires.
\<close>

theorem non_tls_waits_for_timeout:
  assumes "dataBuffer c = Some old"
    and "old @ data \<noteq> []"
    and "(old @ data) ! 0 \<noteq> 0x16"
    and "prereadTimer c"
    and "\<not> isUpstreamConnected c"
  shows "onClientData data (srv, c) = (srv, c\<lparr>dataBuffer := Some (old @ data)\<rparr>)
       \<and> fire PrereadTimeout (onClientData data (srv, c)) =
           (failure (logMessage ''Timeout waiting for TLS ClientHello'' srv),
            c\<lparr>dataBuffer := Some (old @ data), prereadTimer := False, clientDestroyed := True\<rparr>)"
proof -
  have w: "onClientData data (srv, c) = (srv, c\<lparr>dataBuffer := Some (old @ data)\<rparr>)"
    by (rule onClientData_wait [OF assms(1) hasEnough_not_tls [OF assms(2,3)]])
  have t: "onPrereadTimeout (srv, c\<lparr>dataBuffer := Some (old @ data)\<rparr>) =
           (failure (logMessage ''Timeout waiting for TLS ClientHello'' srv),
            c\<lparr>dataBuffer := Some (old @ data), prereadTimer := False, clientDestroyed := True\<rparr>)"
    using assms(5) by (simp add: onPrereadTimeout_waiting)
  show ?thesis unfolding w using assms(4) t by simp
qed

theorem non_tls_waits_for_timeout_witness:
  "dataBuffer (snd (handleConnection decimalBuiltins defaultConfig 0 ''203.0.113.5'' newServer)) = Some []
   \<and> [] @ http_get \<noteq> []
   \<and> ([] @ http_get) ! 0 \<noteq> 0x16
   \<and> prereadTimer (snd (handleConnection decimalBuiltins defaultConfig 0 ''203.0.113.5'' newServer))
   \<and> \<not> isUpstreamConnected (snd (handleConnection decimalBuiltins defaultConfig 0 ''203.0.113.5'' newServer))
   \<and> \<not> clientDestroyed (snd (onClientData http_get
         (handleConnection decimalBuiltins defaultConfig 0 ''203.0.113.5'' newServer)))
   \<and> failed (stats (fst (onClientData http_get
         (handleConnection decimalBuiltins defaultConfig 0 ''203.0.113.5'' newServer)))) = 0
   \<and> clientDestroyed (snd (fire PrereadTimeout (onClientData http_get
         (handleConnection decimalBuiltins defaultConfig 0 ''203.0.113.5'' newServer))))
   \<and> failed (stats (fst (fire PrereadTimeout (onClientData http_get
         (handleConnection decimalBuiltins defaultConfig 0 ''203.0.113.5'' newServer))))) = 1"
proof -
  let ?c = "snd (handleConnection decimalBuiltins defaultConfig 0 ''203.0.113.5'' newServer)"
  let ?srv = "fst (handleConnection decimalBuiltins defaultConfig 0 ''203.0.113.5'' newServer)"
  have a: "dataBuffer ?c = Some []" by code_simp
  have b: "[] @ http_get \<noteq> []" by (simp add: http_get_def)
  have c: "([] @ http_get) ! 0 \<noteq> 0x16" by (simp add: http_get_def)
  have d: "prereadTimer ?c" by code_simp
  have e: "\<not> isUpstreamConnected ?c" by code_simp
  have p: "handleConnection decimalBuiltins defaultConfig 0 ''203.0.113.5'' newServer = (?srv, ?c)"
    by simp
  note th = non_tls_waits_for_timeout [OF a b c d e, of ?srv]
  have s: "failed (stats ?srv) = 0" by code_simp
  have nd: "\<not> clientDestroyed ?c" by code_simp
  have th1: "onClientData http_get (?srv, ?c) = (?srv, ?c\<lparr>dataBuffer := Some ([] @ http_get)\<rparr>)"
    using th by (rule conjunct1)
  have th2: "fire PrereadTimeout (onClientData http_get (?srv, ?c)) =
           (failure (logMessage ''Timeout waiting for TLS ClientHello'' ?srv),
            ?c\<lparr>dataBuffer := Some ([] @ http_get), prereadTimer := False, clientDestroyed := True\<rparr>)"
    using th by (rule conjunct2)
  have r1: "\<not> clientDestroyed (snd (onClientData http_get (?srv, ?c)))"
    unfolding th1 using nd by simp
  have r2: "failed (stats (fst (onClientData http_get (?srv, ?c)))) = 0"
    unfolding th1 using s by simp
  have r3: "clientDestroyed (snd (fire PrereadTimeout (onClientData http_get (?srv, ?c))))"
    unfolding th2 by simp
  have r4: "failed (stats (fst (fire PrereadTimeout (onClientData http_get (?srv, ?c))))) = 1"
    unfolding th2 using s by simp
  show ?thesis
    using a b c d e r1 r2 r3 r4 unfolding prod.collapse by blast
qed

text \<open>
  C5, the claim as stated fails: after the data \<open>GET / HTTP/1.1\<close>, whose first
  byte is \<open>0x47\<close>, the client socket is not destroyed and nothing but the new
  connection has been logged.
\<close>

theorem non_tls_waits_counterexample:
  "http_get ! 0 \<noteq> 0x16
   \<and> \<not> clientDestroyed (snd (fire (Data http_get)
        (handleConnection decimalBuiltins defaultConfig 0 ''203.0.113.5'' newServer)))
   \<and> logs (fst (fire (Data http_get)
        (handleConnection decimalBuiltins defaultConfig 0 ''203.0.113.5'' newServer)))
       = [''New connection established'']"
  by code_simp

lemma fire_Data_wait:
  assumes "dataBuffer c = Some old" and "dataListener c" and "\<not> clientDestroyed c"
    and "\<not> hasEnoughDataForSNI (old @ d)"
  shows "fire (Data d) (srv, c) = (srv, c\<lparr>dataBuffer := Some (old @ d)\<rparr>)"
  using assms by (simp add: onClientData_wait)

text \<open>
  C3 (as amended). The claim says that the preread buffer is capped at 16 KiB and
  that reaching the cap fails the connection with HelloTooLarge. The source has no
  cap and no such failure: as long as \<open>hasEnoughDataForSNI\<close> is false on the
  buffered bytes after each \<open>data\<close> event, the handler appends every chunk to the
  buffer and goes on waiting, whatever the size of the buffer, with the client
  socket open and the statistics unchanged.
\<close>

theorem preread_buffer_grows_without_cap:
  assumes "dataBuffer c = Some old" and "dataListener c" and "\<not> clientDestroyed c"
    and "\<forall>k. 0 < k \<and> k \<le> length chunks
           \<longrightarrow> \<not> hasEnoughDataForSNI (old @ concat (take k chunks))"
  shows "fireAll (map Data chunks) (srv, c) = (srv, c\<lparr>dataBuffer := Some (old @ concat chunks)\<rparr>)"
  using assms
proof (induction chunks arbitrary: old c)
  case Nil
  then show ?case by simp
next
  case (Cons d rest)
  let ?c1 = "c\<lparr>dataBuffer := Some (old @ d)\<rparr>"
  have first: "\<not> hasEnoughDataForSNI (old @ d)"
    using Cons.prems(4) [rule_format, of 1] by simp
  have step: "fire (Data d) (srv, c) = (srv, ?c1)"
    by (rule fire_Data_wait [OF Cons.prems(1,2,3) first])
  have later: "\<forall>k. 0 < k \<and> k \<le> length rest
                 \<longrightarrow> \<not> hasEnoughDataForSNI ((old @ d) @ concat (take k rest))"
  proof (intro allI impI)
    fix k assume k: "0 < k \<and> k \<le> length rest"
    then show "\<not> hasEnoughDataForSNI ((old @ d) @ concat (take k rest))"
      using Cons.prems(4) [rule_format, of "Suc k"] by simp
  qed
  have "fireAll (map Data rest) (srv, ?c1)
          = (srv, ?c1\<lparr>dataBuffer := Some ((old @ d) @ concat rest)\<rparr>)"
    by (rule Cons.IH) (use Cons.prems(2,3) later in simp_all)
  then show ?case using step by simp
qed

theorem preread_buffer_grows_without_cap_witness:
  "\<not> hasEnoughDataForSNI recordHeader
   \<and> \<not> hasEnoughDataForSNI (recordHeader @ replicate 16384 0)
   \<and> 16384 < length (recordHeader @ replicate 16384 0)
   \<and> dataBuffer (snd (fireAll [Data recordHeader, Data (replicate 16384 0)]
        (handleConnection decimalBuiltins defaultConfig 0 ''203.0.113.5'' newServer)))
       = Some (recordHeader @ replicate 16384 0)
   \<and> \<not> clientDestroyed (snd (fireAll [Data recordHeader, Data (replicate 16384 0)]
        (handleConnection decimalBuiltins defaultConfig 0 ''203.0.113.5'' newServer)))
   \<and> failed (stats (fst (fireAll [Data recordHeader, Data (replicate 16384 0)]
        (handleConnection decimalBuiltins defaultConfig 0 ''203.0.113.5'' newServer)))) = 0"
proof -
  let ?c = "snd (handleConnection decimalBuiltins defaultConfig 0 ''203.0.113.5'' newServer)"
  let ?srv = "fst (handleConnection decimalBuiltins defaultConfig 0 ''203.0.113.5'' newServer)"
  let ?chunks = "[recordHeader, replicate 16384 (0 :: byte)]"
  have a: "dataBuffer ?c = Some []" by code_simp
  have b: "dataListener ?c" by code_simp
  have nd: "\<not> clientDestroyed ?c" by code_simp
  have s: "failed (stats ?srv) = 0" by code_simp
  have h1: "\<not> hasEnoughDataForSNI recordHeader"
    by (simp add: hasEnoughDataForSNI_def recordHeader_def readUInt16BE_def)
  have h2: "\<not> hasEnoughDataForSNI (recordHeader @ replicate 16384 0)"
    by (simp add: hasEnoughDataForSNI_def recordHeader_def readUInt16BE_def)
  have l: "16384 < length (recordHeader @ replicate 16384 (0 :: byte))"
    by (simp add: recordHeader_def)
  have hyp: "\<forall>k. 0 < k \<and> k \<le> length ?chunks
               \<longrightarrow> \<not> hasEnoughDataForSNI ([] @ concat (take k ?chunks))"
  proof (intro allI impI)
    fix k assume "0 < k \<and> k \<le> length ?chunks"
    then have "k = 1 \<or> k = 2" by auto
    then show "\<not> hasEnoughDataForSNI ([] @ concat (take k ?chunks))"
      using h1 h2 by auto
  qed
  have th: "fireAll (map Data ?chunks) (?srv, ?c)
              = (?srv, ?c\<lparr>dataBuffer := Some ([] @ concat ?chunks)\<rparr>)"
    by (rule preread_buffer_grows_without_cap [OF a b nd hyp])
  have th': "fireAll [Data recordHeader, Data (replicate 16384 0)] (?srv, ?c)
              = (?srv, ?c\<lparr>dataBuffer := Some (recordHeader @ replicate 16384 0)\<rparr>)"
    using th by simp
  have r1: "dataBuffer (snd (fireAll [Data recordHeader, Data (replicate 16384 0)] (?srv, ?c)))
              = Some (recordHeader @ replicate 16384 0)"
    unfolding th' by simp
  have r2: "\<not> clientDestroyed (snd (fireAll [Data recordHeader, Data (replicate 16384 0)] (?srv, ?c)))"
    unfolding th' using nd by simp
  have r3: "failed (stats (fst (fireAll [Data recordHeader, Data (replicate 16384 0)] (?srv, ?c)))) = 0"
    unfolding th' using s by simp
  show ?thesis
    using h1 h2 l r1 r2 r3 unfolding prod.collapse by blast
qed

text \<open>
  C3, the claim as stated fails: with 16389 bytes of an incomplete record buffered,
  the client socket is not destroyed, the buffer holds all the bytes and no failure
  has been logged.
\<close>

theorem preread_buffer_cap_counterexample:
  "16384 < length oversized
   \<and> \<not> clientDestroyed (snd (fire (Data oversized)
        (handleConnection decimalBuiltins defaultConfig 0 ''203.0.113.5'' newServer)))
   \<and> dataBuffer (snd (fire (Data oversized)
        (handleConnection decimalBuiltins defaultConfig 0 ''203.0.113.5'' newServer)))
       = Some oversized
   \<and> logs (fst (fire (Data oversized)
        (handleConnection decimalBuiltins defaultConfig 0 ''203.0.113.5'' newServer)))
       = [''New connection established'']"
proof -
  have w: "onClientData oversized (srv, (newConn ''203.0.113.5'')
             \<lparr>prereadTimer := True, clientListeners := True, dataListener := True\<rparr>)
           = (srv, (newConn ''203.0.113.5'')
             \<lparr>prereadTimer := True, clientListeners := True, dataListener := True,
               dataBuffer := Some ([] @ oversized)\<rparr>)" for srv
    by (rule onClientData_wait) (simp_all add: newConn_def hasEnough_oversized)
  show ?thesis
    unfolding fresh_admitted
    by (simp add: w length_oversized, simp add: newConn_def logMessage_def newServer_def)
qed

text \<open>
  C10. When \<open>parseSNI\<close> returns the empty string, \<open>onClientData\<close> takes the
  branch of \<open>!sniHostname\<close>: it records a failure, destroys the client socket and
  returns without a call of \<open>connectToUpstream\<close> (\<open>upstreamSocket\<close> is left as it
  was), as it does for \<open>null\<close>; and \<open>getUpstreamForSNI\<close> returns \<open>null\<close> both
  for the empty string and for \<open>null\<close>.
\<close>

theorem empty_sni_closes_without_dial:
  assumes "dataBuffer c = Some old"
    and "hasEnoughDataForSNI (old @ data)"
    and "parseSNI (old @ data) = Some []"
  shows "onClientData data (srv, c) =
           (failure (logMessage ''Failed to parse SNI from ClientHello'' srv),
            c\<lparr>dataBuffer := Some (old @ data), sniHostname := Some [],
              prereadTimer := False, clientDestroyed := True\<rparr>)
       \<and> getUpstreamForSNI (Some []) = Null
       \<and> getUpstreamForSNI None = Null"
proof -
  have "onClientData data (srv, c) =
           (failure (logMessage ''Failed to parse SNI from ClientHello'' srv),
            c\<lparr>dataBuffer := Some (old @ data), sniHostname := parseSNI (old @ data),
              prereadTimer := False, clientDestroyed := True\<rparr>)"
    by (rule onClientData_noSNI [OF assms(1,2)]) (simp add: assms(3))
  then show ?thesis by (simp add: assms(3) getUpstreamForSNI_def)
qed

theorem empty_sni_closes_without_dial_witness:
  "dataBuffer (snd (handleConnection decimalBuiltins defaultConfig 0 ''203.0.113.5'' newServer)) = Some []
   \<and> hasEnoughDataForSNI ([] @ clientHello [])
   \<and> parseSNI ([] @ clientHello []) = Some []
   \<and> clientDestroyed (snd (onClientData (clientHello [])
        (handleConnection decimalBuiltins defaultConfig 0 ''203.0.113.5'' newServer)))
   \<and> upstreamSocket (snd (onClientData (clientHello [])
        (handleConnection decimalBuiltins defaultConfig 0 ''203.0.113.5'' newServer))) = None
   \<and> failed (stats (fst (onClientData (clientHello [])
        (handleConnection decimalBuiltins defaultConfig 0 ''203.0.113.5'' newServer)))) = 1"
proof -
  let ?c = "snd (handleConnection decimalBuiltins defaultConfig 0 ''203.0.113.5'' newServer)"
  let ?srv = "fst (handleConnection decimalBuiltins defaultConfig 0 ''203.0.113.5'' newServer)"
  have a: "dataBuffer ?c = Some []" by code_simp
  have b: "hasEnoughDataForSNI ([] @ clientHello [])" by code_simp
  have c: "parseSNI ([] @ clientHello []) = Some []" by code_simp
  have s: "failed (stats ?srv) = 0" by code_simp
  have u: "upstreamSocket ?c = None" by code_simp
  have th: "onClientData (clientHello []) (?srv, ?c) =
           (failure (logMessage ''Failed to parse SNI from ClientHello'' ?srv),
            ?c\<lparr>dataBuffer := Some ([] @ clientHello []), sniHostname := Some [],
              prereadTimer := False, clientDestroyed := True\<rparr>)"
    using empty_sni_closes_without_dial [OF a b c, of ?srv] by (rule conjunct1)
  have r1: "clientDestroyed (snd (onClientData (clientHello []) (?srv, ?c)))"
    unfolding th by simp
  have r2: "upstreamSocket (snd (onClientData (clientHello []) (?srv, ?c))) = None"
    unfolding th using u by simp
  have r3: "failed (stats (fst (onClientData (clientHello []) (?srv, ?c)))) = 1"
    unfolding th using s by simp
  show ?thesis
    using a b c r1 r2 r3 unfolding prod.collapse by blast
qed

section \<open>Properties of the IP filter\<close>

lemma split_no_sep: "sep \<notin> set s \<Longrightarrow> split sep s = [s]"
  by (induction s) auto

lemma split_at_sep: "sep \<notin> set a \<Longrightarrow> split sep (a @ sep # r) = a # split sep r"
  by (induction a) auto

lemma parseCIDR_valid:
  assumes "CHR ''/'' \<notin> set a" and "CHR ''/'' \<notin> set p"
    and "parseInt10 js p = Finite n" and "0 \<le> n" and "n \<le> 32"
    and "ipToInt js a = Inr x"
  shows "parseCIDR js (a @ ''/'' @ p) =
           Inr \<lparr>network = x AND prefixMask n, mask = prefixMask n\<rparr>"
proof -
  have s: "split CHR ''/'' (a @ ''/'' @ p) = [a, p]"
    using assms(1,2) by (simp add: split_at_sep split_no_sep)
  show ?thesis
    unfolding parseCIDR_def s using assms(3-6) by (simp add: Let_def)
qed

lemma isAllowed_single_cidr:
  "isAllowed js [CidrRule c original] ip =
     (if network c = 0 \<and> mask c = 0 then True
      else (case ipToInt js ip of Inl e \<Rightarrow> False | Inr ipInt \<Rightarrow> matchesCIDR ipInt c))"
  by (simp add: isAllowed_def split: sum.splits)

lemma setAllowedIPs_single_cidr:
  assumes "CHR ''/'' \<in> set entry" and "parseCIDR js entry = Inr c"
  shows "setAllowedIPs js (Entries [entry]) = [CidrRule c entry]"
  using assms by (simp add: setAllowedIPs_def ruleOfEntry_def)

text \<open>
  C9. For a prefix string that \<open>parseInt\<close> reads as \<open>n\<close> in \<open>[0, 32]\<close>, an
  address string \<open>a\<close> that \<open>ipToInt\<close> reads as \<open>x\<close>, and an address string
  \<open>a'\<close> that it reads as \<open>x & mask\<close> for the mask of \<open>n\<close>, the entries
  \<open>a/n\<close> and \<open>a'/n\<close> parse to the same network and mask, and the two rule sets
  made of one of them accept the same peer addresses.
\<close>

theorem cidr_canonicalization_invariant:
  assumes "CHR ''/'' \<notin> set a" and "CHR ''/'' \<notin> set a'" and "CHR ''/'' \<notin> set p"
    and "parseInt10 js p = Finite n" and "0 \<le> n" and "n \<le> 32"
    and "ipToInt js a = Inr x"
    and "ipToInt js a' = Inr (x AND prefixMask n)"
  shows "parseCIDR js (a @ ''/'' @ p) = parseCIDR js (a' @ ''/'' @ p)
       \<and> (\<forall>ip. isAllowed js (setAllowedIPs js (Entries [a @ ''/'' @ p])) ip
               = isAllowed js (setAllowedIPs js (Entries [a' @ ''/'' @ p])) ip)"
proof -
  let ?c = "\<lparr>network = x AND prefixMask n, mask = prefixMask n\<rparr>"
  have c1: "parseCIDR js (a @ ''/'' @ p) = Inr ?c"
    by (rule parseCIDR_valid [OF assms(1,3,4,5,6,7)])
  have "parseCIDR js (a' @ ''/'' @ p) =
          Inr \<lparr>network = (x AND prefixMask n) AND prefixMask n, mask = prefixMask n\<rparr>"
    by (rule parseCIDR_valid [OF assms(2,3,4,5,6,8)])
  then have c2: "parseCIDR js (a' @ ''/'' @ p) = Inr ?c"
    by (simp add: and.assoc)
  have r1: "setAllowedIPs js (Entries [a @ ''/'' @ p]) = [CidrRule ?c (a @ ''/'' @ p)]"
    by (rule setAllowedIPs_single_cidr [OF _ c1]) simp
  have r2: "setAllowedIPs js (Entries [a' @ ''/'' @ p]) = [CidrRule ?c (a' @ ''/'' @ p)]"
    by (rule setAllowedIPs_single_cidr [OF _ c2]) simp
  show ?thesis
    unfolding r1 r2 c1 c2 isAllowed_single_cidr by simp
qed

theorem cidr_canonicalization_invariant_witness:
  "CHR ''/'' \<notin> set ''192.168.1.77'' \<and> CHR ''/'' \<notin> set ''192.168.1.0''
   \<and> CHR ''/'' \<notin> set ''24''
   \<and> parseInt10 decimalBuiltins ''24'' = Finite 24 \<and> (0::rat) \<le> 24 \<and> (24::rat) \<le> 32
   \<and> ipToInt decimalBuiltins ''192.168.1.77'' = Inr 0xC0A8014D
   \<and> ipToInt decimalBuiltins ''192.168.1.0'' = Inr (0xC0A8014D AND prefixMask 24)
   \<and> parseCIDR decimalBuiltins ''192.168.1.77/24'' = parseCIDR decimalBuiltins ''192.168.1.0/24''
   \<and> (\<forall>ip. isAllowed decimalBuiltins (setAllowedIPs decimalBuiltins (Entries [''192.168.1.77/24''])) ip
           = isAllowed decimalBuiltins (setAllowedIPs decimalBuiltins (Entries [''192.168.1.0/24''])) ip)"
proof -
  have a: "CHR ''/'' \<notin> set ''192.168.1.77''" by simp
  have b: "CHR ''/'' \<notin> set ''192.168.1.0''" by simp
  have c: "CHR ''/'' \<notin> set ''24''" by simp
  have d: "parseInt10 decimalBuiltins ''24'' = Finite 24" by code_simp
  have e: "(0::rat) \<le> 24" by simp
  have f: "(24::rat) \<le> 32" by simp
  have g: "ipToInt decimalBuiltins ''192.168.1.77'' = Inr 0xC0A8014D" by code_simp
  have h: "ipToInt decimalBuiltins ''192.168.1.0'' = Inr (0xC0A8014D AND prefixMask 24)"
    by code_simp
  show ?thesis
    using a b c d e f g h cidr_canonicalization_invariant [OF a b c d e f g h] by simp
qed

lemma ipToInt_throws:
  assumes "length (split CHR ''.'' ip) \<noteq> 4
           \<or> list_ex (\<lambda>p. js_lt (Number js p) 0 \<or> js_gt (Number js p) 255) (split CHR ''.'' ip)"
  shows "ipToInt js ip = Inl (InvalidIPAddress ip)"
  using assms by (auto simp add: ipToInt_def Let_def list_ex_iff)

text \<open>
  C6 (as amended). The claim says that \<open>isAllowed\<close> is false for every rule set
  on a peer address that cannot be parsed as a dotted quad. The source returns
  \<open>true\<close> before it parses the address when the rule set is empty or has the rule
  \<open>0.0.0.0/0\<close> (network 0 and mask 0). For every other rule set, \<open>isAllowed\<close>
  is false on every address that does not have exactly four parts between its dots
  (an IPv6 address written without a dotted quad, such as \<open>::1\<close>) or has a part
  that \<open>Number\<close> reads as a value below 0 or above 255. Nothing is said here of an
  address with four parts of which one is not a number, such as the IPv6-mapped form
  \<open>::ffff:127.0.0.1\<close>: \<open>ipToInt\<close> does not throw on it.
\<close>

theorem unparseable_address_denied:
  "(rules \<noteq> [] \<and> \<not> list_ex isUniversal rules
      \<and> (length (split CHR ''.'' ip) \<noteq> 4
          \<or> list_ex (\<lambda>p. js_lt (Number js p) 0 \<or> js_gt (Number js p) 255) (split CHR ''.'' ip))
      \<longrightarrow> \<not> isAllowed js rules ip)
   \<and> (rules = [] \<or> list_ex isUniversal rules \<longrightarrow> isAllowed js rules ip)"
proof (intro conjI impI)
  assume h: "rules \<noteq> [] \<and> \<not> list_ex isUniversal rules
      \<and> (length (split CHR ''.'' ip) \<noteq> 4
          \<or> list_ex (\<lambda>p. js_lt (Number js p) 0 \<or> js_gt (Number js p) 255) (split CHR ''.'' ip))"
  then have "ipToInt js ip = Inl (InvalidIPAddress ip)"
    by (intro ipToInt_throws) blast
  with h show "\<not> isAllowed js rules ip" by (simp add: isAllowed_def)
next
  assume "rules = [] \<or> list_ex isUniversal rules"
  then show "isAllowed js rules ip" by (auto simp add: isAllowed_def)
qed

theorem unparseable_address_denied_witness:
  "ipFilter decimalBuiltins tenOnly \<noteq> []
   \<and> \<not> list_ex isUniversal (ipFilter decimalBuiltins tenOnly)
   \<and> length (split CHR ''.'' ''::1'') = 1
   \<and> \<not> isAllowed decimalBuiltins (ipFilter decimalBuiltins tenOnly) ''::1''
   \<and> list_ex (\<lambda>p. js_lt (Number decimalBuiltins p) 0 \<or> js_gt (Number decimalBuiltins p) 255)
        (split CHR ''.'' ''10.0.0.256'')
   \<and> \<not> isAllowed decimalBuiltins (ipFilter decimalBuiltins tenOnly) ''10.0.0.256''
   \<and> list_ex isUniversal (ipFilter decimalBuiltins defaultConfig)
   \<and> isAllowed decimalBuiltins (ipFilter decimalBuiltins defaultConfig) ''::1''"
proof -
  let ?rules = "ipFilter decimalBuiltins tenOnly"
  have a: "?rules \<noteq> []" by code_simp
  have b: "\<not> list_ex isUniversal ?rules" by code_simp
  have c: "length (split CHR ''.'' ''::1'') = 1" by code_simp
  have c': "list_ex (\<lambda>p. js_lt (Number decimalBuiltins p) 0 \<or> js_gt (Number decimalBuiltins p) 255)
        (split CHR ''.'' ''10.0.0.256'')" by code_simp
  have d: "list_ex isUniversal (ipFilter decimalBuiltins defaultConfig)" by code_simp
  have r1: "\<not> isAllowed decimalBuiltins ?rules ''::1''"
    using unparseable_address_denied [of ?rules "''::1''" decimalBuiltins] a b c by simp
  have r2: "\<not> isAllowed decimalBuiltins ?rules ''10.0.0.256''"
    using unparseable_address_denied [of ?rules "''10.0.0.256''" decimalBuiltins] a b c' by blast
  have r3: "isAllowed decimalBuiltins (ipFilter decimalBuiltins defaultConfig) ''::1''"
    using unparseable_address_denied [of "ipFilter decimalBuiltins defaultConfig" "''::1''" decimalBuiltins] d
    by blast
  show ?thesis using a b c c' d r1 r2 r3 by blast
qed

text \<open>
  C6, the claim as stated fails: under the default allow-list \<open>0.0.0.0/0\<close> the
  IPv6 peer \<open>::1\<close>, on which \<open>ipToInt\<close> throws, and the IPv6-mapped peer
  \<open>::ffff:203.0.113.5\<close> are both allowed; and under the single rule \<open>0.0.0.1\<close>
  the IPv6-mapped peer \<open>::ffff:127.0.0.1\<close> is read as \<open>0.0.0.1\<close>, since its
  first part is \<open>NaN\<close> and passes the range check, and is allowed.
\<close>

theorem unparseable_address_allowed_counterexample:
  "ipToInt decimalBuiltins ''::1'' = Inl (InvalidIPAddress ''::1'')
   \<and> isAllowed decimalBuiltins (ipFilter decimalBuiltins defaultConfig) ''::1'' = True
   \<and> isAllowed decimalBuiltins (ipFilter decimalBuiltins defaultConfig) ''::ffff:203.0.113.5'' = True
   \<and> ipToInt decimalBuiltins ''::ffff:127.0.0.1'' = Inr 1
   \<and> isAllowed decimalBuiltins (setAllowedIPs decimalBuiltins (Entries [''0.0.0.1'']))
        ''::ffff:127.0.0.1'' = True"
  by code_simp

section \<open>Properties of the rate limiter\<close>

text \<open>
  For a limit that is a whole number \<open>n\<close> of at least 1, the calls admitted for an
  address within one window, the opening call included, are at most \<open>n\<close>.
\<close>

lemma cleanupRateLimit_keeps:
  assumes "now \<le> resetTime e"
  shows "cleanupRateLimit now (m(a \<mapsto> e)) = (cleanupRateLimit now m)(a \<mapsto> e)"
  using assms by (auto simp add: cleanupRateLimit_def fun_eq_iff)

lemma checkRateLimit_other:
  assumes "ip \<noteq> a"
  shows "\<exists>ok m'. checkRateLimit limit now ip (m(a \<mapsto> e)) = (ok, m'(a \<mapsto> e))"
proof (cases "checkRateLimit limit now ip m")
  case (Pair ok m')
  have "checkRateLimit limit now ip (m(a \<mapsto> e)) = (ok, m'(a \<mapsto> e))"
    using Pair assms
    by (auto simp add: checkRateLimit_def Let_def fun_upd_twist split: option.splits if_splits)
  then show ?thesis by blast
qed

lemma admissions_in_window:
  assumes "\<forall>ev \<in> set es. eventTime ev \<le> resetTime e"
    and "count e \<le> n"
  shows "count e + int (admissions (Finite (of_int n)) a es (m(a \<mapsto> e))) \<le> n"
  using assms
proof (induction es arbitrary: m e)
  case Nil
  then show ?case by simp
next
  case (Cons ev es)
  have rest: "\<forall>ev \<in> set es. eventTime ev \<le> resetTime e" using Cons.prems(1) by simp
  have now: "eventTime ev \<le> resetTime e" using Cons.prems(1) by simp
  show ?case
  proof (cases ev)
    case (Check now ip)
    show ?thesis
    proof (cases "ip = a")
      case True
      show ?thesis
      proof (cases "count e \<ge> n")
        case full: True
        have step: "checkRateLimit (Finite (of_int n)) now a (m(a \<mapsto> e)) = (False, m(a \<mapsto> e))"
          using now Check full by (simp add: checkRateLimit_def)
        have "count e + int (admissions (Finite (of_int n)) a es (m(a \<mapsto> e))) \<le> n"
          using rest Cons.prems(2) by (rule Cons.IH)
        then show ?thesis unfolding Check True admissions.simps step by simp
      next
        case room: False
        let ?e = "e\<lparr>count := count e + 1\<rparr>"
        have step: "checkRateLimit (Finite (of_int n)) now a (m(a \<mapsto> e)) = (True, m(a \<mapsto> ?e))"
          using now Check room by (simp add: checkRateLimit_def)
        have r: "\<forall>ev \<in> set es. eventTime ev \<le> resetTime ?e" using rest by simp
        have c: "count ?e \<le> n" using room by simp
        have "count ?e + int (admissions (Finite (of_int n)) a es (m(a \<mapsto> ?e))) \<le> n"
          using r c by (rule Cons.IH)
        then show ?thesis unfolding Check True admissions.simps step by simp
      qed
    next
      case False
      obtain ok m' where m': "checkRateLimit (Finite (of_int n)) now ip (m(a \<mapsto> e)) = (ok, m'(a \<mapsto> e))"
        using checkRateLimit_other [OF False] by blast
      have "count e + int (admissions (Finite (of_int n)) a es (m'(a \<mapsto> e))) \<le> n"
        using rest Cons.prems(2) by (rule Cons.IH)
      then show ?thesis unfolding Check admissions.simps m' using False by simp
    qed
  next
    case (Sweep now')
    have keep: "cleanupRateLimit now' (m(a \<mapsto> e)) = (cleanupRateLimit now' m)(a \<mapsto> e)"
      using now Sweep by (simp add: cleanupRateLimit_keeps)
    have "count e + int (admissions (Finite (of_int n)) a es ((cleanupRateLimit now' m)(a \<mapsto> e))) \<le> n"
      using rest Cons.prems(2) by (rule Cons.IH)
    then show ?thesis unfolding Sweep admissions.simps keep by simp
  qed
qed

lemma checkRateLimit_opens_window:
  assumes "m a = None \<or> (\<exists>e. m a = Some e \<and> resetTime e < now)"
  shows "checkRateLimit limit now a m = (True, m(a \<mapsto> \<lparr>count = 1, resetTime = now + 60000\<rparr>))"
  using assms by (auto simp add: checkRateLimit_def Let_def)

lemma rate_limit_bound_numeric:
  assumes "1 \<le> n"
    and "m a = None \<or> (\<exists>e. m a = Some e \<and> resetTime e < t0)"
    and "\<forall>ev \<in> set es. eventTime ev \<le> t0 + 60000"
  shows "int (admissions (Finite (of_int n)) a (Check t0 a # es) m) \<le> n"
proof -
  let ?e = "\<lparr>count = 1, resetTime = t0 + 60000\<rparr>"
  have step: "checkRateLimit (Finite (of_int n)) t0 a m = (True, m(a \<mapsto> ?e))"
    using checkRateLimit_opens_window [of m a t0 "Finite (of_int n)"] assms(2) by simp
  have r: "\<forall>ev \<in> set es. eventTime ev \<le> resetTime ?e" using assms(3) by simp
  have c: "count ?e \<le> n" using assms(1) by simp
  have "count ?e + int (admissions (Finite (of_int n)) a es (m(a \<mapsto> ?e))) \<le> n"
    using r c by (rule admissions_in_window)
  then show ?thesis unfolding admissions.simps step by simp
qed

lemma checkRateLimit_NaN: "fst (checkRateLimit NaN now ip m)"
  by (simp add: checkRateLimit_def Let_def split: option.splits)

lemma admissions_NaN: "admissions NaN a (map (\<lambda>t. Check t a) ts) m = length ts"
proof (induction ts arbitrary: m)
  case Nil
  show ?case by simp
next
  case (Cons t ts)
  obtain ok m' where step: "checkRateLimit NaN t a m = (ok, m')"
    by (cases "checkRateLimit NaN t a m")
  have ok: "ok" using checkRateLimit_NaN [of t a m] step by simp
  have "admissions NaN a (map (\<lambda>t. Check t a) ts) m' = length ts" by (rule Cons.IH)
  then show ?case unfolding list.map admissions.simps step using ok by simp
qed

text \<open>
  C8. The claim says that the connections admitted for an address within a window
  are at most the configured limit. With \<open>RATE_LIMIT_PER_IP=abc\<close> in the
  environment \<open>parseInt\<close> gives \<open>NaN\<close>; \<open>validateConfig\<close>, whose check is
  \<open>config.rateLimitPerIP < 1\<close>, reports no error, and \<open>checkRateLimit\<close>, whose
  check is \<open>existing.count >= config.rateLimitPerIP\<close>, admits every call: any
  number of calls for one address, at any times, are all admitted.
\<close>

theorem rate_limit_not_a_number:
  "rateLimitPerIP (loadConfig decimalBuiltins [''RATE_LIMIT_PER_IP'' \<mapsto> ''abc'']) = NaN
   \<and> validateConfig (loadConfig decimalBuiltins [''RATE_LIMIT_PER_IP'' \<mapsto> ''abc'']) = []
   \<and> admissions (rateLimitPerIP (loadConfig decimalBuiltins [''RATE_LIMIT_PER_IP'' \<mapsto> ''abc'']))
        ''203.0.113.5'' (map (\<lambda>t. Check t ''203.0.113.5'') ts) Map.empty = length ts"
proof -
  have p: "parseInt10 decimalBuiltins ''abc'' = NaN"
    by code_simp
  have a: "rateLimitPerIP (loadConfig decimalBuiltins [''RATE_LIMIT_PER_IP'' \<mapsto> ''abc'']) = NaN"
    by (simp add: loadConfig_def envOr_def p)
  have b: "validateConfig (loadConfig decimalBuiltins [''RATE_LIMIT_PER_IP'' \<mapsto> ''abc'']) = []"
    by (simp add: validateConfig_def loadConfig_def envOr_def decimalBuiltins_def
          decimalParseInt_def isDigit_def digitsValue_def)
  have c: "admissions (rateLimitPerIP (loadConfig decimalBuiltins [''RATE_LIMIT_PER_IP'' \<mapsto> ''abc'']))
        ''203.0.113.5'' (map (\<lambda>t. Check t ''203.0.113.5'') ts) Map.empty = length ts"
    unfolding a by (rule admissions_NaN)
  show ?thesis using a b c by blast
qed

section \<open>Properties of the statistics\<close>

text \<open>
  C1. The claim says that every accepted connection is counted once, as a success
  or as a failure, and that \<open>active = total - successful - failed\<close> always holds.
  Under the default configuration, a connection from 203.0.113.5 with the SNI
  \<open>fw-download.ubnt.com\<close> whose upstream handshake succeeds and whose upstream
  socket then reports an error is counted both ways, and the counters end at
  \<open>total = 1\<close>, \<open>successful = 1\<close>, \<open>failed = 1\<close>, \<open>active = 0\<close>. The same
  connection closed by the client while the upstream is being dialled is counted
  neither way and leaves \<open>active = 1\<close>. Under the allow-list \<open>10.0.0.0/8\<close>,
  while a connection from 10.1.2.3 is being dialled (\<open>active = 1\<close>), the rejection
  of a connection from 203.0.113.5 sets \<open>active\<close> to 0.
\<close>

theorem connection_counted_twice_or_never:
  "total (stats (fst (serve decimalBuiltins defaultConfig
      [Accept 0 ''203.0.113.5'', Deliver 0 (Data (clientHello fw_download_ubnt_com)),
       Deliver 0 SecureConnect, Deliver 0 UpstreamError] (newServer, [])))) = 1
   \<and> successful (stats (fst (serve decimalBuiltins defaultConfig
      [Accept 0 ''203.0.113.5'', Deliver 0 (Data (clientHello fw_download_ubnt_com)),
       Deliver 0 SecureConnect, Deliver 0 UpstreamError] (newServer, [])))) = 1
   \<and> failed (stats (fst (serve decimalBuiltins defaultConfig
      [Accept 0 ''203.0.113.5'', Deliver 0 (Data (clientHello fw_download_ubnt_com)),
       Deliver 0 SecureConnect, Deliver 0 UpstreamError] (newServer, [])))) = 1
   \<and> active (stats (fst (serve decimalBuiltins defaultConfig
      [Accept 0 ''203.0.113.5'', Deliver 0 (Data (clientHello fw_download_ubnt_com)),
       Deliver 0 SecureConnect, Deliver 0 UpstreamError] (newServer, [])))) = 0
   \<and> total (stats (fst (serve decimalBuiltins defaultConfig
      [Accept 0 ''203.0.113.5'', Deliver 0 (Data (clientHello fw_download_ubnt_com)),
       Deliver 0 ClientClose, Deliver 0 UpstreamClose] (newServer, [])))) = 1
   \<and> successful (stats (fst (serve decimalBuiltins defaultConfig
      [Accept 0 ''203.0.113.5'', Deliver 0 (Data (clientHello fw_download_ubnt_com)),
       Deliver 0 ClientClose, Deliver 0 UpstreamClose] (newServer, [])))) = 0
   \<and> failed (stats (fst (serve decimalBuiltins defaultConfig
      [Accept 0 ''203.0.113.5'', Deliver 0 (Data (clientHello fw_download_ubnt_com)),
       Deliver 0 ClientClose, Deliver 0 UpstreamClose] (newServer, [])))) = 0
   \<and> active (stats (fst (serve decimalBuiltins defaultConfig
      [Accept 0 ''203.0.113.5'', Deliver 0 (Data (clientHello fw_download_ubnt_com)),
       Deliver 0 ClientClose, Deliver 0 UpstreamClose] (newServer, [])))) = 1
   \<and> active (stats (fst (serve decimalBuiltins tenOnly
      [Accept 0 ''10.1.2.3'', Deliver 0 (Data (clientHello fw_download_ubnt_com))]
      (newServer, [])))) = 1
   \<and> active (stats (fst (serve decimalBuiltins tenOnly
      [Accept 0 ''10.1.2.3'', Deliver 0 (Data (clientHello fw_download_ubnt_com)),
       Accept 1 ''203.0.113.5''] (newServer, [])))) = 0"
proof -
  have f0: "total (stats (fst (serve decimalBuiltins defaultConfig
      [Accept 0 ''203.0.113.5'', Deliver 0 (Data (clientHello fw_download_ubnt_com)),
       Deliver 0 SecureConnect, Deliver 0 UpstreamError] (newServer, [])))) = 1"
    by code_simp
  have f1: "successful (stats (fst (serve decimalBuiltins defaultConfig
      [Accept 0 ''203.0.113.5'', Deliver 0 (Data (clientHello fw_download_ubnt_com)),
       Deliver 0 SecureConnect, Deliver 0 UpstreamError] (newServer, [])))) = 1"
    by code_simp
  have f2: "failed (stats (fst (serve decimalBuiltins defaultConfig
      [Accept 0 ''203.0.113.5'', Deliver 0 (Data (clientHello fw_download_ubnt_com)),
       Deliver 0 SecureConnect, Deliver 0 UpstreamError] (newServer, [])))) = 1"
    by code_simp
  have f3: "active (stats (fst (serve decimalBuiltins defaultConfig
      [Accept 0 ''203.0.113.5'', Deliver 0 (Data (clientHello fw_download_ubnt_com)),
       Deliver 0 SecureConnect, Deliver 0 UpstreamError] (newServer, [])))) = 0"
    by code_simp
  have f4: "total (stats (fst (serve decimalBuiltins defaultConfig
      [Accept 0 ''203.0.113.5'', Deliver 0 (Data (clientHello fw_download_ubnt_com)),
       Deliver 0 ClientClose, Deliver 0 UpstreamClose] (newServer, [])))) = 1"
    by code_simp
  have f5: "successful (stats (fst (serve decimalBuiltins defaultConfig
      [Accept 0 ''203.0.113.5'', Deliver 0 (Data (clientHello fw_download_ubnt_com)),
       Deliver 0 ClientClose, Deliver 0 UpstreamClose] (newServer, [])))) = 0"
    by code_simp
  have f6: "failed (stats (fst (serve decimalBuiltins defaultConfig
      [Accept 0 ''203.0.113.5'', Deliver 0 (Data (clientHello fw_download_ubnt_com)),
       Deliver 0 ClientClose, Deliver 0 UpstreamClose] (newServer, [])))) = 0"
    by code_simp
  have f7: "active (stats (fst (serve decimalBuiltins defaultConfig
      [Accept 0 ''203.0.113.5'', Deliver 0 (Data (clientHello fw_download_ubnt_com)),
       Deliver 0 ClientClose, Deliver 0 UpstreamClose] (newServer, [])))) = 1"
    by code_simp
  have f8: "active (stats (fst (serve decimalBuiltins tenOnly
      [Accept 0 ''10.1.2.3'', Deliver 0 (Data (clientHello fw_download_ubnt_com))]
      (newServer, [])))) = 1"
    by code_simp
  have f9: "active (stats (fst (serve decimalBuiltins tenOnly
      [Accept 0 ''10.1.2.3'', Deliver 0 (Data (clientHello fw_download_ubnt_com)),
       Accept 1 ''203.0.113.5''] (newServer, [])))) = 0"
    by code_simp
  show ?thesis
    using f0 f1 f2 f3 f4 f5 f6 f7 f8 f9 by blast
qed

end
